theory Spec2Isabelle
  imports Complex_Main
begin

section \<open>JavaScript numbers\<close>

text \<open>
  Every number of the source is an IEEE double. A finite double is represented by the
  real number it denotes and arithmetic on finite values is exact (rounding is
  idealised); the three non-finite values are kept, so that a division by zero is
  visible in the model as it is in the program. Negative zero is not distinguished
  from zero: the denominators of the source are DOM sizes, which are never negative.
\<close>

datatype jsnum = Fin real | PosInf | NegInf | NaN

fun js_neg :: "jsnum \<Rightarrow> jsnum" where
  "js_neg (Fin a) = Fin (- a)"
| "js_neg PosInf = NegInf"
| "js_neg NegInf = PosInf"
| "js_neg NaN = NaN"

fun js_add :: "jsnum \<Rightarrow> jsnum \<Rightarrow> jsnum" where
  "js_add (Fin a) (Fin b) = Fin (a + b)"
| "js_add (Fin a) PosInf = PosInf"
| "js_add (Fin a) NegInf = NegInf"
| "js_add PosInf (Fin b) = PosInf"
| "js_add PosInf PosInf = PosInf"
| "js_add PosInf NegInf = NaN"
| "js_add NegInf (Fin b) = NegInf"
| "js_add NegInf PosInf = NaN"
| "js_add NegInf NegInf = NegInf"
| "js_add NaN b = NaN"
| "js_add a NaN = NaN"

definition js_sub :: "jsnum \<Rightarrow> jsnum \<Rightarrow> jsnum" where
  "js_sub a b = js_add a (js_neg b)"

fun js_mul :: "jsnum \<Rightarrow> jsnum \<Rightarrow> jsnum" where
  "js_mul (Fin a) (Fin b) = Fin (a * b)"
| "js_mul (Fin a) PosInf = (if a = 0 then NaN else if 0 < a then PosInf else NegInf)"
| "js_mul (Fin a) NegInf = (if a = 0 then NaN else if 0 < a then NegInf else PosInf)"
| "js_mul PosInf (Fin b) = (if b = 0 then NaN else if 0 < b then PosInf else NegInf)"
| "js_mul NegInf (Fin b) = (if b = 0 then NaN else if 0 < b then NegInf else PosInf)"
| "js_mul PosInf PosInf = PosInf"
| "js_mul PosInf NegInf = NegInf"
| "js_mul NegInf PosInf = NegInf"
| "js_mul NegInf NegInf = PosInf"
| "js_mul NaN b = NaN"
| "js_mul a NaN = NaN"

fun js_div :: "jsnum \<Rightarrow> jsnum \<Rightarrow> jsnum" where
  "js_div (Fin a) (Fin b) =
     (if b = 0 then (if a = 0 then NaN else if 0 < a then PosInf else NegInf)
      else Fin (a / b))"
| "js_div (Fin a) PosInf = Fin 0"
| "js_div (Fin a) NegInf = Fin 0"
| "js_div PosInf (Fin b) = (if 0 \<le> b then PosInf else NegInf)"
| "js_div NegInf (Fin b) = (if 0 \<le> b then NegInf else PosInf)"
| "js_div PosInf PosInf = NaN"
| "js_div PosInf NegInf = NaN"
| "js_div NegInf PosInf = NaN"
| "js_div NegInf NegInf = NaN"
| "js_div NaN b = NaN"
| "js_div a NaN = NaN"

text \<open>Truthiness of a number: \<open>0\<close> and \<open>NaN\<close> are falsy. \<open>js_or_zero x\<close> is \<open>x || 0\<close>.\<close>

fun js_truthy :: "jsnum \<Rightarrow> bool" where
  "js_truthy (Fin a) = (a \<noteq> 0)"
| "js_truthy PosInf = True"
| "js_truthy NegInf = True"
| "js_truthy NaN = False"

definition js_or_zero :: "jsnum \<Rightarrow> jsnum" where
  "js_or_zero x = (if js_truthy x then x else Fin 0)"

text \<open>Truthiness of a nullable string: \<open>null\<close> and the empty string are falsy.\<close>

fun truthy_string :: "string option \<Rightarrow> bool" where
  "truthy_string None = False"
| "truthy_string (Some s) = (s \<noteq> [])"


section \<open>Data model\<close>

text \<open>
  A row of the \<open>signatures\<close> table (the \<open>Signature\<close> interface of the pages). The
  column \<open>id\<close> is named \<open>sig_id\<close> here.
\<close>

datatype sig_status = Pending | Signed | Rejected

record signature_row =
  sig_id :: string
  document_id :: string
  signer_email :: string
  signer_name :: string
  x_position :: jsnum
  y_position :: jsnum
  page_number :: int
  width :: jsnum
  height :: jsnum
  status :: sig_status
  signature_data :: "string option"
  signed_at :: "string option"
  rejection_reason :: "string option"


section \<open>PDF stamping: the \<open>download-signed-document\<close> function\<close>

text \<open>
  A loaded document is the list of its pages. A page has its native size in points, its
  original content (opaque) and the images drawn on it so far, oldest first. The result
  of \<open>embedPng\<close> is an opaque image handle.
\<close>

type_synonym png_image = string

datatype draw_op =
  DrawImage (img: png_image) (opt_x: jsnum) (opt_y: jsnum) (opt_width: jsnum) (opt_height: jsnum)

record pdf_page =
  getWidth :: jsnum
  getHeight :: jsnum
  content :: string
  images :: "draw_op list"

text \<open>\<open>pages[i]\<close> for an integer \<open>i\<close>: \<open>undefined\<close> (here \<open>None\<close>) out of range.\<close>

definition page_at :: "pdf_page list \<Rightarrow> int \<Rightarrow> pdf_page option" where
  "page_at pages i = (if 0 \<le> i \<and> i < int (length pages) then Some (pages ! nat i) else None)"

text \<open>The options object passed to \<open>page.drawImage\<close> for one signature.\<close>

definition draw_options :: "pdf_page \<Rightarrow> signature_row \<Rightarrow> png_image \<Rightarrow> draw_op" where
  "draw_options page sig pngImage =
     (let absoluteX = js_mul (x_position sig) (getWidth page);
          absoluteY = js_mul (y_position sig) (getHeight page)
      in DrawImage pngImage absoluteX
           (js_sub (js_sub (getHeight page) absoluteY) (height sig))
           (width sig) (height sig))"

definition drawImage :: "pdf_page \<Rightarrow> draw_op \<Rightarrow> pdf_page" where
  "drawImage page d = page\<lparr>images := images page @ [d]\<rparr>"

datatype error =
  DocumentIdRequired | InvalidRequestBody | DocError | FileError | SigError
  | LoadError | EmbedError | UploadError

text \<open>
  The loop over the fetched signatures. \<open>embedPng\<close> belongs to the PDF library: it
  returns \<open>None\<close> where the library throws. The page objects are mutated in place in the
  source; here the page list is threaded through the loop.
\<close>

fun stamp_loop ::
  "(string \<Rightarrow> png_image option) \<Rightarrow> pdf_page list \<Rightarrow> signature_row list \<Rightarrow> error + pdf_page list"
where
  "stamp_loop embedPng pages [] = Inr pages"
| "stamp_loop embedPng pages (sig # sigs) =
     (case signature_data sig of
        None \<Rightarrow> stamp_loop embedPng pages sigs
      | Some d \<Rightarrow>
          if d = [] then stamp_loop embedPng pages sigs
          else
            (case page_at pages (page_number sig - 1) of
               None \<Rightarrow> stamp_loop embedPng pages sigs
             | Some page \<Rightarrow>
                 (case embedPng d of
                    None \<Rightarrow> Inl EmbedError
                  | Some pngImage \<Rightarrow>
                      stamp_loop embedPng
                        (pages[nat (page_number sig - 1) :=
                                 drawImage page (draw_options page sig pngImage)])
                        sigs)))"

text \<open>
  The state the function reads and writes: the \<open>documents\<close> table (by id), the
  \<open>documents\<close> storage bucket (by path), the \<open>signatures\<close> table, and the
  \<open>signed-documents\<close> bucket. The two flags stand for a failure reported by the
  service on the signatures query and on the upload.
\<close>

record document_row =
  file_path :: string
  file_name :: string

record backend =
  documents :: "string \<rightharpoonup> document_row"
  documents_bucket :: "string \<rightharpoonup> string"
  signatures :: "signature_row list"
  sig_query_fails :: bool
  signed_bucket :: "string \<rightharpoonup> string"
  upload_fails :: bool

text \<open>The PDF library: \<open>PDFDocument.load\<close>, \<open>embedPng\<close> and \<open>save\<close>.\<close>

record pdf_lib =
  load :: "string \<Rightarrow> pdf_page list option"
  embedPng :: "string \<Rightarrow> png_image option"
  save :: "pdf_page list \<Rightarrow> string"

text \<open>
  The request: its method and its JSON body (\<open>None\<close>: the body is not JSON;
  \<open>Some None\<close>: no \<open>document_id\<close> in it).
\<close>

record request =
  req_method :: string
  req_json :: "string option option"

datatype response = OkResponse | SignedUrlResponse string | ErrorResponse error

text \<open>The signatures query: the rows of the document whose status is \<open>signed\<close>.\<close>

definition select_signed :: "backend \<Rightarrow> string \<Rightarrow> signature_row list" where
  "select_signed be did =
     filter (\<lambda>s. document_id s = did \<and> status s = Signed) (signatures be)"

text \<open>\<open>s.replace(pat, rep)\<close> with a string pattern: the first occurrence only.\<close>

fun replace_first :: "string \<Rightarrow> string \<Rightarrow> string \<Rightarrow> string" where
  "replace_first pat rep [] = (if pat = [] then rep else [])"
| "replace_first pat rep (c # cs) =
     (if take (length pat) (c # cs) = pat then rep @ drop (length pat) (c # cs)
      else c # replace_first pat rep cs)"

definition signed_file_name :: "string \<Rightarrow> string \<Rightarrow> string" where
  "signed_file_name fname now = replace_first ''.pdf'' [] fname @ ''_signed_'' @ now @ ''.pdf''"

text \<open>
  The body of the \<open>try\<close> block: the signed URL and the new state, or the error thrown.
  \<open>now\<close> is \<open>Date.now()\<close> in decimal, \<open>getPublicUrl\<close> the storage service's URL of a
  file name.
\<close>

definition try_body ::
  "pdf_lib \<Rightarrow> string \<Rightarrow> (string \<Rightarrow> string) \<Rightarrow> backend \<Rightarrow> request \<Rightarrow> error + (string \<times> backend)"
where
  "try_body lib now getPublicUrl be req =
     (case req_json req of
        None \<Rightarrow> Inl InvalidRequestBody
      | Some None \<Rightarrow> Inl DocumentIdRequired
      | Some (Some did) \<Rightarrow>
          if did = [] then Inl DocumentIdRequired
          else
            (case documents be did of
               None \<Rightarrow> Inl DocError
             | Some document \<Rightarrow>
                 (case documents_bucket be (file_path document) of
                    None \<Rightarrow> Inl FileError
                  | Some pdfFileData \<Rightarrow>
                      if sig_query_fails be then Inl SigError
                      else
                        (case load lib pdfFileData of
                           None \<Rightarrow> Inl LoadError
                         | Some pages \<Rightarrow>
                             (case stamp_loop (embedPng lib) pages (select_signed be did) of
                                Inl e \<Rightarrow> Inl e
                              | Inr stamped \<Rightarrow>
                                  if upload_fails be then Inl UploadError
                                  else
                                    (let signedFileName = signed_file_name (file_name document) now
                                     in Inr (getPublicUrl signedFileName,
                                             be\<lparr>signed_bucket :=
                                                  (signed_bucket be)(signedFileName \<mapsto> save lib stamped)\<rparr>)))))))"

text \<open>The handler: the response and the state after it. Every error is a 500 response.\<close>

definition handler ::
  "pdf_lib \<Rightarrow> string \<Rightarrow> (string \<Rightarrow> string) \<Rightarrow> backend \<Rightarrow> request \<Rightarrow> response \<times> backend"
where
  "handler lib now getPublicUrl be req =
     (if req_method req = ''OPTIONS'' then (OkResponse, be)
      else
        (case try_body lib now getPublicUrl be req of
           Inl e \<Rightarrow> (ErrorResponse e, be)
         | Inr (signedUrl, be') \<Rightarrow> (SignedUrlResponse signedUrl, be')))"

text \<open>
  The caller (\<open>downloadDocument\<close>, \<open>handlePreviewDownload\<close>): the URL it opens, or \<open>None\<close>
  where it shows an error instead.
\<close>

fun downloadDocument :: "response \<Rightarrow> string option" where
  "downloadDocument (SignedUrlResponse signedUrl) = (if signedUrl = [] then None else Some signedUrl)"
| "downloadDocument (ErrorResponse e) = None"
| "downloadDocument OkResponse = None"

text \<open>Quantities the properties of stamping are stated with.\<close>

definition stampable :: "nat \<Rightarrow> signature_row \<Rightarrow> bool" where
  "stampable n sig =
     (truthy_string (signature_data sig) \<and> 1 \<le> page_number sig \<and> page_number sig \<le> int n)"


fun stamps_on ::
  "(string \<Rightarrow> png_image option) \<Rightarrow> pdf_page \<Rightarrow> nat \<Rightarrow> signature_row list \<Rightarrow> draw_op list"
where
  "stamps_on emb page i [] = []"
| "stamps_on emb page i (sig # sigs) =
     (case signature_data sig of
        None \<Rightarrow> []
      | Some d \<Rightarrow>
          if d \<noteq> [] \<and> page_number sig - 1 = int i
          then (case emb d of None \<Rightarrow> [] | Some pngImage \<Rightarrow> [draw_options page sig pngImage])
          else [])
     @ stamps_on emb page i sigs"



section \<open>Geometry: capturing and displaying a field position\<close>

text \<open>
  \<open>SignatureField.handleMouseMove\<close>: the arguments of the \<open>onMove\<close> call, if one is made.
  \<open>containerRect\<close> is the left and top of the parent's bounding rectangle (\<open>None\<close>: no
  parent element). Client coordinates, rectangles and scroll metrics are finite numbers.
\<close>

record drag_state =
  isDragging :: bool
  dragOffset_x :: real
  dragOffset_y :: real

definition handleMouseMove ::
  "drag_state \<Rightarrow> bool \<Rightarrow> (real \<times> real) option \<Rightarrow> real \<Rightarrow> real \<Rightarrow> (real \<times> real) option"
where
  "handleMouseMove st onMove containerRect clientX clientY =
     (if \<not> isDragging st \<or> \<not> onMove then None
      else
        (case containerRect of
           None \<Rightarrow> None
         | Some (rect_left, rect_top) \<Rightarrow>
             (let newX = clientX - rect_left - dragOffset_x st;
                  newY = clientY - rect_top - dragOffset_y st
              in Some (max 0 newX, max 0 newY))))"

text \<open>The scrollable container of the document viewer (\<open>pdfContainerRef.current\<close>).\<close>

record container =
  scrollWidth :: real
  scrollHeight :: real
  scrollLeft :: real
  scrollTop :: real

text \<open>The locals \<open>normalizedX\<close> and \<open>normalizedY\<close> of \<open>handleMoveSignature\<close>.\<close>

definition normalized :: "container \<Rightarrow> real \<Rightarrow> real \<Rightarrow> jsnum \<times> jsnum" where
  "normalized c x y =
     (let contentWidth = scrollWidth c;
          contentHeight = scrollHeight c;
          absoluteX = x + scrollLeft c;
          absoluteY = y + scrollTop c
      in (js_div (Fin absoluteX) (Fin contentWidth), js_div (Fin absoluteY) (Fin contentHeight)))"

text \<open>
  \<open>handleMoveSignature\<close>: the values handed to the store's \<open>update\<close> (\<open>None\<close>: no call was
  made) and the signature rows afterwards. \<open>db_error\<close> says that the store reported an
  error, in which case the rows stay as they are.
\<close>

definition handleMoveSignature ::
  "container option \<Rightarrow> bool \<Rightarrow> string \<Rightarrow> real \<Rightarrow> real \<Rightarrow> signature_row list
     \<Rightarrow> (jsnum \<times> jsnum) option \<times> signature_row list"
where
  "handleMoveSignature cont db_error signatureId x y sigs =
     (case cont of
        None \<Rightarrow> (None, sigs)
      | Some c \<Rightarrow>
          (let (normalizedX, normalizedY) = normalized c x y
           in (Some (normalizedX, normalizedY),
               if db_error then sigs
               else map (\<lambda>sig. if sig_id sig = signatureId
                                then sig\<lparr>x_position := normalizedX, y_position := normalizedY\<rparr>
                                else sig) sigs)))"

text \<open>
  The overlay of the document viewer: the \<open>x\<close> and \<open>y\<close> props of a field, and the fields
  rendered for the measured \<open>containerSize\<close> and the current page.
\<close>

definition overlay_position :: "real \<times> real \<Rightarrow> signature_row \<Rightarrow> jsnum \<times> jsnum" where
  "overlay_position containerSize sig =
     (js_mul (js_or_zero (x_position sig)) (Fin (fst containerSize)),
      js_mul (js_or_zero (y_position sig)) (Fin (snd containerSize)))"

definition overlay ::
  "real \<times> real \<Rightarrow> int \<Rightarrow> signature_row list \<Rightarrow> (string \<times> jsnum \<times> jsnum) list"
where
  "overlay containerSize currentPage sigs =
     (if 0 < fst containerSize
      then map (\<lambda>sig. (sig_id sig, overlay_position containerSize sig))
             (filter (\<lambda>sig. page_number sig = currentPage) sigs)
      else [])"

text \<open>A fraction within the unit interval.\<close>

fun in_unit_interval :: "jsnum \<Rightarrow> bool" where
  "in_unit_interval (Fin f) = (0 \<le> f \<and> f \<le> 1)"
| "in_unit_interval PosInf = False"
| "in_unit_interval NegInf = False"
| "in_unit_interval NaN = False"


section \<open>Status of a field: the signing pages\<close>

text \<open>
  The share a signing link resolves to, the signer's rows loaded by \<open>loadDocumentShare\<close>,
  and the two flags the page derives from them.
\<close>

record document_share =
  share_document_id :: string
  share_signer_email :: string

definition my_signatures :: "document_share \<Rightarrow> signature_row list \<Rightarrow> signature_row list" where
  "my_signatures ds rows =
     filter (\<lambda>sig. document_id sig = share_document_id ds \<and> signer_email sig = share_signer_email ds) rows"

definition allSigned :: "signature_row list \<Rightarrow> bool" where
  "allSigned sigs = list_all (\<lambda>sig. status sig = Signed) sigs"

definition hasRejected :: "signature_row list \<Rightarrow> bool" where
  "hasRejected sigs = list_ex (\<lambda>sig. status sig = Rejected) sigs"

text \<open>
  \<open>handleSignatureComplete\<close>: the update of the row with the current id; nothing
  happens without a current id (null or empty) or without a share. The rows are the
  table; the page's local copy is taken to agree with it. \<open>db_error\<close> says that the
  store reported an error.
\<close>

definition handleSignatureComplete ::
  "string option \<Rightarrow> document_share option \<Rightarrow> bool \<Rightarrow> string \<Rightarrow> string \<Rightarrow> signature_row list
     \<Rightarrow> signature_row list"
where
  "handleSignatureComplete currentSignatureId documentShare db_error signatureData now rows =
     (case currentSignatureId of
        None \<Rightarrow> rows
      | Some cid \<Rightarrow>
          (case documentShare of
             None \<Rightarrow> rows
           | Some ds \<Rightarrow>
               if cid = [] \<or> db_error then rows
               else map (\<lambda>sig. if sig_id sig = cid
                                then sig\<lparr>signature_data := Some signatureData, status := Signed,
                                         signed_at := Some now\<rparr>
                                else sig) rows))"

text \<open>\<open>handleRejectDocument\<close>: the update of all rows of the signer on the document.\<close>

definition handleRejectDocument ::
  "document_share option \<Rightarrow> bool \<Rightarrow> signature_row list \<Rightarrow> signature_row list"
where
  "handleRejectDocument documentShare db_error rows =
     (case documentShare of
        None \<Rightarrow> rows
      | Some ds \<Rightarrow>
          if db_error then rows
          else map (\<lambda>sig. if document_id sig = share_document_id ds
                              \<and> signer_email sig = share_signer_email ds
                           then sig\<lparr>status := Rejected,
                                    rejection_reason := Some ''Document rejected by signer''\<rparr>
                           else sig) rows)"

text \<open>
  What the signing page offers: "Sign Here" on a row of the signer, and "Reject
  Document". In the token page a click on a field opens the capture dialog only for a
  pending field of the current signer (\<open>handleSignatureFieldClick\<close>), and completing it
  performs the same update by id. In the document viewer a drag starts on a field that
  is not signed (\<open>handleMouseDown\<close>) and ends in \<open>handleMoveSignature\<close>.
\<close>

definition sign_button_shown :: "signature_row list \<Rightarrow> signature_row \<Rightarrow> bool" where
  "sign_button_shown sigs sig =
     (sigs \<noteq> [] \<and> \<not> allSigned sigs \<and> \<not> hasRejected sigs \<and> status sig = Pending)"

definition reject_button_shown :: "signature_row list \<Rightarrow> bool" where
  "reject_button_shown sigs = (\<not> allSigned sigs \<and> \<not> hasRejected sigs)"

definition handleSignatureFieldClick :: "string \<Rightarrow> signature_row \<Rightarrow> signature_row option" where
  "handleSignatureFieldClick currentUserEmail sig =
     (if signer_email sig = currentUserEmail \<and> status sig = Pending then Some sig else None)"

text \<open>
  The operations on the rows of a document, as the pages offer them: \<open>None\<close> where the
  page does not offer the action in the state.
\<close>

datatype action =
  Sign string string string
  | Reject
  | TokenSign string string string
  | Move container real real string

fun perform :: "document_share \<Rightarrow> action \<Rightarrow> signature_row list \<Rightarrow> signature_row list option" where
  "perform ds (Sign sid signatureData now) rows =
     (if list_ex (\<lambda>sig. sig_id sig = sid \<and> sign_button_shown (my_signatures ds rows) sig)
           (my_signatures ds rows)
      then Some (handleSignatureComplete (Some sid) (Some ds) False signatureData now rows)
      else None)"
| "perform ds Reject rows =
     (if reject_button_shown (my_signatures ds rows)
      then Some (handleRejectDocument (Some ds) False rows)
      else None)"
| "perform ds (TokenSign sid signatureData now) rows =
     (if list_ex (\<lambda>sig. sig_id sig = sid
                        \<and> handleSignatureFieldClick (share_signer_email ds) sig \<noteq> None)
           (filter (\<lambda>sig. document_id sig = share_document_id ds) rows)
      then Some (handleSignatureComplete (Some sid) (Some ds) False signatureData now rows)
      else None)"
| "perform ds (Move c x y sid) rows =
     (if list_ex (\<lambda>sig. sig_id sig = sid \<and> status sig \<noteq> Signed) rows
      then Some (snd (handleMoveSignature (Some c) False sid x y rows))
      else None)"

text \<open>The changes of status that the operations are shown to be confined to.\<close>

fun status_step :: "sig_status \<Rightarrow> sig_status \<Rightarrow> bool" where
  "status_step Pending b = True"
| "status_step Signed b = (b = Signed \<or> b = Rejected)"
| "status_step Rejected b = (b = Rejected)"


section \<open>Signature capture\<close>

text \<open>
  The state of the capture dialog. The canvas is the number of strokes on it (\<open>None\<close>:
  \<open>canvasRef.current\<close> is null); \<open>isEmpty()\<close> holds of zero strokes. \<open>hasSignature\<close> is
  computed when the dialog renders, so it reads the canvas as it was then
  (\<open>canvas_at_render\<close>), while \<open>handleComplete\<close> reads it when the button is clicked.
\<close>

datatype signature_mode = Draw | Type

record capture_state =
  signerName :: string
  signerEmail :: string
  signatureMode :: signature_mode
  typedSignature :: string
  canvas :: "nat option"
  canvas_at_render :: "nat option"

text \<open>\<open>String.prototype.trim\<close>, on the white space that an 8-bit character can be.\<close>

definition js_whitespace :: "char \<Rightarrow> bool" where
  "js_whitespace c = (c \<in> set [CHR 0x09, CHR 0x0A, CHR 0x0B, CHR 0x0C, CHR 0x0D, CHR 0x20, CHR 0xA0])"

definition trim :: "string \<Rightarrow> string" where
  "trim s = rev (dropWhile js_whitespace (rev (dropWhile js_whitespace s)))"

text \<open>
  \<open>handleComplete\<close>: the argument of the \<open>onComplete\<close> call, if one is made. \<open>toDataURL\<close>
  encodes the drawn canvas; \<open>renderText\<close> draws the typed text on a new canvas and
  encodes it (\<open>None\<close>: no 2d context).
\<close>

definition handleComplete ::
  "(nat \<Rightarrow> string) \<Rightarrow> (string \<Rightarrow> string option) \<Rightarrow> capture_state \<Rightarrow> string option"
where
  "handleComplete toDataURL renderText st =
     (let signatureData =
            (case signatureMode st of
               Draw \<Rightarrow>
                 (case canvas st of
                    None \<Rightarrow> []
                  | Some strokes \<Rightarrow> if strokes \<noteq> 0 then toDataURL strokes else [])
             | Type \<Rightarrow>
                 if trim (typedSignature st) \<noteq> []
                 then (case renderText (typedSignature st) of None \<Rightarrow> [] | Some url \<Rightarrow> url)
                 else [])
      in if signatureData = [] then None else Some signatureData)"

definition hasSignature :: "capture_state \<Rightarrow> bool" where
  "hasSignature st =
     (case signatureMode st of
        Draw \<Rightarrow> (case canvas_at_render st of None \<Rightarrow> False | Some strokes \<Rightarrow> strokes \<noteq> 0)
      | Type \<Rightarrow> 0 < length (trim (typedSignature st)))"

definition complete_disabled :: "capture_state \<Rightarrow> bool" where
  "complete_disabled st =
     (\<not> hasSignature st \<or> trim (signerName st) = [] \<or> trim (signerEmail st) = [])"

text \<open>A click on "Complete Signature": a disabled button does nothing.\<close>

definition click_complete ::
  "(nat \<Rightarrow> string) \<Rightarrow> (string \<Rightarrow> string option) \<Rightarrow> capture_state \<Rightarrow> string option"
where
  "click_complete toDataURL renderText st =
     (if complete_disabled st then None else handleComplete toDataURL renderText st)"

text \<open>
  The gate in the specification's words: the error that \<open>complete()\<close> is to fail with,
  if any. The input is empty in freehand mode when no stroke is recorded and in typed
  mode when the trimmed string is empty.
\<close>

datatype capture_error = EmptyInput | MissingSignerInfo

definition spec_empty_input :: "capture_state \<Rightarrow> bool" where
  "spec_empty_input st =
     (case signatureMode st of
        Draw \<Rightarrow> (case canvas st of None \<Rightarrow> True | Some strokes \<Rightarrow> strokes = 0)
      | Type \<Rightarrow> trim (typedSignature st) = [])"

definition spec_complete_error :: "capture_state \<Rightarrow> capture_error option" where
  "spec_complete_error st =
     (if spec_empty_input st then Some EmptyInput
      else if signerName st = [] \<or> signerEmail st = [] then Some MissingSignerInfo
      else None)"


text \<open>
  What a click on "Complete Signature" amounts to for its caller: an image handed to
  \<open>onComplete\<close>, or nothing at all. \<open>Failed\<close> is the outcome the specification names, an
  error reported to the caller; the component has no path to it: it throws nothing,
  shows no message, and its only callbacks are \<open>onComplete\<close> and \<open>onCancel\<close>.
\<close>

datatype complete_outcome = Failed capture_error | Produced string | NoEffect

definition click_outcome ::
  "(nat \<Rightarrow> string) \<Rightarrow> (string \<Rightarrow> string option) \<Rightarrow> capture_state \<Rightarrow> complete_outcome"
where
  "click_outcome toDataURL renderText st =
     (case click_complete toDataURL renderText st of
        None \<Rightarrow> NoEffect
      | Some signatureData \<Rightarrow> Produced signatureData)"


section \<open>Example data\<close>

definition letter_page :: pdf_page where
  "letter_page = \<lparr>getWidth = Fin 612, getHeight = Fin 792, content = ''page text'', images = []\<rparr>"

definition example_field :: signature_row where
  "example_field =
     \<lparr>sig_id = ''s1'', document_id = ''d1'', signer_email = ''ann@example.org'',
      signer_name = ''Ann'', x_position = Fin (1 / 10), y_position = Fin (1 / 10),
      page_number = 1, width = Fin 150, height = Fin 50, status = Signed,
      signature_data = Some ''png-ann'', signed_at = Some ''t1'', rejection_reason = None\<rparr>"

definition example_container :: container where
  "example_container = \<lparr>scrollWidth = 800, scrollHeight = 600, scrollLeft = 0, scrollTop = 0\<rparr>"

definition example_embedPng :: "string \<Rightarrow> png_image option" where
  "example_embedPng d = (if d = ''corrupt'' then None else Some d)"

definition three_pages :: "pdf_page list" where
  "three_pages = [letter_page, letter_page\<lparr>content := ''second page''\<rparr>,
                  letter_page\<lparr>content := ''third page''\<rparr>]"

definition second_field :: signature_row where
  "second_field =
     example_field\<lparr>sig_id := ''s2'', signer_email := ''bob@example.org'', signer_name := ''Bob'',
                   page_number := 2, signature_data := Some ''png-bob''\<rparr>"

definition example_backend :: "signature_row \<Rightarrow> backend" where
  "example_backend third =
     \<lparr>documents = [''d1'' \<mapsto> \<lparr>file_path = ''u1/1.pdf'', file_name = ''contract.pdf''\<rparr>],
      documents_bucket = [''u1/1.pdf'' \<mapsto> ''pdf-bytes''],
      signatures = [example_field, third, second_field],
      sig_query_fails = False,
      signed_bucket = Map.empty,
      upload_fails = False\<rparr>"

definition example_lib :: pdf_lib where
  "example_lib =
     \<lparr>load = (\<lambda>bytes. if bytes = ''pdf-bytes'' then Some three_pages else None),
      embedPng = example_embedPng,
      save = (\<lambda>pages. concat (map (\<lambda>p. content p @ ''['' @ concat (map (\<lambda>d. img d @ '','') (images p))
                                            @ '']'') pages))\<rparr>"

definition example_request :: request where
  "example_request = \<lparr>req_method = ''POST'', req_json = Some (Some ''d1'')\<rparr>"


definition zero_height_container :: container where
  "zero_height_container = \<lparr>scrollWidth = 800, scrollHeight = 0, scrollLeft = 0, scrollTop = 0\<rparr>"

definition unmeasured_container :: container where
  "unmeasured_container = \<lparr>scrollWidth = 0, scrollHeight = 0, scrollLeft = 0, scrollTop = 0\<rparr>"

definition example_drag :: drag_state where
  "example_drag = \<lparr>isDragging = True, dragOffset_x = 5, dragOffset_y = 5\<rparr>"

definition example_share :: document_share where
  "example_share = \<lparr>share_document_id = ''d1'', share_signer_email = ''ann@example.org''\<rparr>"

definition pending_field :: signature_row where
  "pending_field =
     example_field\<lparr>sig_id := ''s2'', page_number := 2, status := Pending,
                   signature_data := None, signed_at := None\<rparr>"

definition example_capture :: capture_state where
  "example_capture =
     \<lparr>signerName = ''Ann'', signerEmail = ''ann@example.org'', signatureMode = Draw,
      typedSignature = [], canvas = Some 3, canvas_at_render = Some 3\<rparr>"

definition example_toDataURL :: "nat \<Rightarrow> string" where
  "example_toDataURL strokes = ''data:image/png;base64,'' @ replicate strokes CHR ''A''"

definition example_renderText :: "string \<Rightarrow> string option" where
  "example_renderText t = Some (''data:image/png;base64,'' @ t)"


section \<open>Properties of stamping\<close>

lemma page_at_Some:
  "page_at pages i = Some p \<longleftrightarrow> (0 \<le> i \<and> i < int (length pages) \<and> p = pages ! nat i)"
  by (auto simp: page_at_def)

lemma page_at_None: "page_at pages i = None \<longleftrightarrow> \<not> (0 \<le> i \<and> i < int (length pages))"
  by (auto simp: page_at_def)




text \<open>The loop fails exactly when a stampable row has an image that cannot be embedded.\<close>

lemma stamp_loop_error_iff:
  "stamp_loop e pages sigs = Inl err \<longleftrightarrow>
     err = EmbedError \<and>
     (\<exists>s \<in> set sigs. stampable (length pages) s \<and> (\<exists>d. signature_data s = Some d \<and> e d = None))"
proof (induction sigs arbitrary: pages)
  case Nil
  show ?case by simp
next
  case (Cons s sigs)
  show ?case
    using Cons.IH[of pages] Cons.IH[of "pages[nat (page_number s - 1) := q]" for q]
    by (auto simp: stampable_def page_at_Some page_at_None split: option.splits)
qed

text \<open>The loop returns the stamped pages when every stampable row has an embeddable image.\<close>

lemma stamp_loop_succeeds:
  assumes "\<And>s d. s \<in> set sigs \<Longrightarrow> stampable (length pages) s \<Longrightarrow> signature_data s = Some d
             \<Longrightarrow> e d \<noteq> None"
  shows "\<exists>pages'. stamp_loop e pages sigs = Inr pages'"
proof (cases "stamp_loop e pages sigs")
  case (Inl err)
  then show ?thesis
    using assms unfolding stamp_loop_error_iff by blast
next
  case (Inr pages')
  then show ?thesis by blast
qed


lemma handler_error_keeps_state:
  assumes "handler lib now getPublicUrl be req = (ErrorResponse err, be')"
  shows "be' = be"
  using assms by (auto simp: handler_def split: if_splits sum.splits)

lemma draw_options_drawImage [simp]: "draw_options (drawImage p d) s png = draw_options p s png"
  by (simp add: draw_options_def drawImage_def)

lemma images_drawImage [simp]: "images (drawImage p d) = images p @ [d]"
  by (simp add: drawImage_def)

lemma stamps_on_drawImage [simp]: "stamps_on e (drawImage p d) i sigs = stamps_on e p i sigs"
  by (induction sigs) (auto split: option.splits)






text \<open>The placement of an image when all the numbers involved are finite.\<close>

lemma draw_options_finite:
  assumes "getWidth page = Fin w" "getHeight page = Fin h"
    and "x_position sig = Fin xf" "y_position sig = Fin yf" "height sig = Fin hp"
  shows "draw_options page sig png =
           DrawImage png (Fin (xf * w)) (Fin (h - yf * h - hp)) (width sig) (Fin hp)"
  using assms by (simp add: draw_options_def js_sub_def)

text \<open>
  C1, as the specification states it, fails on its own example: on a 612 by 792 page, the
  field at fractions 0.1 and 0.1 with height 50 is not drawn at Y = 663.2.
\<close>

theorem stamping_placement_not_663:
  "opt_y (draw_options letter_page example_field ''png-ann'') \<noteq> Fin 663.2"
  by (simp add: draw_options_def letter_page_def example_field_def js_sub_def)

text \<open>
  C1 (amended): on a page of 612 by 792 points, a field with fractions 0.1 and 0.1 and a
  height of 50 is drawn at X = 0.1 * 612 = 61.2 and at bottom-left
  Y = 792 - 0.1 * 792 - 50 = 662.8, which is the page height minus the top-down offset
  minus the field height.
\<close>

theorem stamping_placement:
  assumes "getWidth page = Fin 612" and "getHeight page = Fin 792"
    and "x_position sig = Fin 0.1" and "y_position sig = Fin 0.1" and "height sig = Fin 50"
  shows "opt_x (draw_options page sig png) = Fin 61.2
       \<and> opt_y (draw_options page sig png) = Fin 662.8
       \<and> opt_y (draw_options page sig png)
           = js_sub (js_sub (getHeight page) (js_mul (y_position sig) (getHeight page))) (height sig)"
proof -
  have "draw_options page sig png
          = DrawImage png (Fin (0.1 * 612)) (Fin (792 - 0.1 * 792 - 50)) (width sig) (Fin 50)"
    using assms by (rule draw_options_finite)
  moreover have "opt_y (draw_options page sig png)
      = js_sub (js_sub (getHeight page) (js_mul (y_position sig) (getHeight page))) (height sig)"
    by (simp add: draw_options_def)
  ultimately show ?thesis by simp
qed

theorem stamping_placement_witness:
  "getWidth letter_page = Fin 612 \<and> getHeight letter_page = Fin 792
   \<and> x_position example_field = Fin 0.1 \<and> y_position example_field = Fin 0.1
   \<and> height example_field = Fin 50
   \<and> opt_x (draw_options letter_page example_field ''png-ann'') = Fin 61.2
   \<and> opt_y (draw_options letter_page example_field ''png-ann'') = Fin 662.8"
proof -
  have h: "getWidth letter_page = Fin 612" "getHeight letter_page = Fin 792"
    "x_position example_field = Fin 0.1" "y_position example_field = Fin 0.1"
    "height example_field = Fin 50"
    by (simp_all add: letter_page_def example_field_def)
  show ?thesis
    using h stamping_placement[OF h, of "''png-ann''"] by simp
qed






text \<open>
  C7: when the image of a stampable signed row cannot be embedded, the request ends
  with the error response, nothing is uploaded (the state is as before), and the caller
  opens no document.
\<close>

theorem embed_failure_aborts:
  assumes "req_method req \<noteq> ''OPTIONS''"
    and "req_json req = Some (Some did)" and "did \<noteq> []"
    and "documents be did = Some document"
    and "documents_bucket be (file_path document) = Some pdfFileData"
    and "\<not> sig_query_fails be"
    and "load lib pdfFileData = Some pages"
    and "s \<in> set (select_signed be did)"
    and "stampable (length pages) s"
    and "signature_data s = Some d" and "embedPng lib d = None"
  shows "handler lib now getPublicUrl be req = (ErrorResponse EmbedError, be)
       \<and> downloadDocument (fst (handler lib now getPublicUrl be req)) = None"
proof -
  have "stamp_loop (embedPng lib) pages (select_signed be did) = Inl EmbedError"
    using assms(8-11) unfolding stamp_loop_error_iff by blast
  then have "try_body lib now getPublicUrl be req = Inl EmbedError"
    using assms(2-7) by (simp add: try_body_def)
  then have "handler lib now getPublicUrl be req = (ErrorResponse EmbedError, be)"
    using assms(1) by (simp add: handler_def)
  then show ?thesis by simp
qed

text \<open>
  The third of three signed fields is corrupt: the two before it are drawn in memory,
  but the response is the error and the bucket of signed documents stays empty.
\<close>

theorem embed_failure_aborts_witness:
  "handler example_lib ''1700000000000'' (\<lambda>name. ''https://files/'' @ name)
      (example_backend (second_field\<lparr>sig_id := ''s3'', page_number := 3,
                                      signature_data := Some ''corrupt''\<rparr>))
      example_request
     = (ErrorResponse EmbedError,
        example_backend (second_field\<lparr>sig_id := ''s3'', page_number := 3,
                                       signature_data := Some ''corrupt''\<rparr>))
   \<and> signed_bucket (example_backend (second_field\<lparr>sig_id := ''s3'', page_number := 3,
                                       signature_data := Some ''corrupt''\<rparr>)) = Map.empty"
proof -
  let ?s = "second_field\<lparr>sig_id := ''s3'', page_number := 3, signature_data := Some ''corrupt''\<rparr>"
  let ?be = "example_backend ?s"
  have h1: "req_method example_request \<noteq> ''OPTIONS''"
    and h2: "req_json example_request = Some (Some ''d1'')"
    and h3: "''d1'' \<noteq> []"
    by (simp_all add: example_request_def)
  have h4: "documents ?be ''d1'' = Some \<lparr>file_path = ''u1/1.pdf'', file_name = ''contract.pdf''\<rparr>"
    by (simp add: example_backend_def)
  have h5: "documents_bucket ?be (file_path \<lparr>file_path = ''u1/1.pdf'', file_name = ''contract.pdf''\<rparr>)
              = Some ''pdf-bytes''"
    by (simp add: example_backend_def)
  have h6: "\<not> sig_query_fails ?be"
    by (simp add: example_backend_def)
  have h7: "load example_lib ''pdf-bytes'' = Some three_pages"
    by (simp add: example_lib_def)
  have h8: "?s \<in> set (select_signed ?be ''d1'')"
    by (simp add: select_signed_def example_backend_def example_field_def second_field_def)
  have h9: "stampable (length three_pages) ?s"
    by (simp add: stampable_def three_pages_def)
  have h10: "signature_data ?s = Some ''corrupt''"
    by simp
  have h11: "embedPng example_lib ''corrupt'' = None"
    by (simp add: example_lib_def example_embedPng_def)
  show ?thesis
    using embed_failure_aborts[OF h1 h2 h3 h4 h5 h6 h7 h8 h9 h10 h11,
        of "''1700000000000''" "\<lambda>name. ''https://files/'' @ name"]
    by (simp add: example_backend_def)
qed






section \<open>Properties of the geometry\<close>

text \<open>A captured position is displayed where it was captured, for one row.\<close>

lemma overlay_position_normalized:
  assumes "0 < scrollWidth c" and "0 < scrollHeight c"
  shows "overlay_position (scrollWidth c, scrollHeight c)
           (sig\<lparr>x_position := fst (normalized c x y), y_position := snd (normalized c x y)\<rparr>)
         = (Fin (x + scrollLeft c), Fin (y + scrollTop c))"
  using assms by (simp add: overlay_position_def normalized_def js_or_zero_def Let_def)

text \<open>
  C2: with a content size that is positive and unchanged between the move and the
  rendering, the overlay shows the moved field at the pixel position it was moved to
  (the position within the content, scroll offset included), and every other field where
  it was. Arithmetic on finite numbers is exact in this model, so the positions are equal.
\<close>

theorem round_trip:
  assumes "0 < scrollWidth c" and "0 < scrollHeight c"
  shows "overlay (scrollWidth c, scrollHeight c) currentPage
           (snd (handleMoveSignature (Some c) False signatureId x y sigs))
         = map (\<lambda>sig. (sig_id sig,
                        if sig_id sig = signatureId
                        then (Fin (x + scrollLeft c), Fin (y + scrollTop c))
                        else overlay_position (scrollWidth c, scrollHeight c) sig))
             (filter (\<lambda>sig. page_number sig = currentPage) sigs)"
proof -
  have "overlay (scrollWidth c, scrollHeight c) currentPage
           (map (\<lambda>sig. if sig_id sig = signatureId
                        then sig\<lparr>x_position := fst (normalized c x y),
                                 y_position := snd (normalized c x y)\<rparr>
                        else sig) sigs)
         = map (\<lambda>sig. (sig_id sig,
                        if sig_id sig = signatureId
                        then (Fin (x + scrollLeft c), Fin (y + scrollTop c))
                        else overlay_position (scrollWidth c, scrollHeight c) sig))
             (filter (\<lambda>sig. page_number sig = currentPage) sigs)"
    using assms(1) overlay_position_normalized[OF assms]
    by (induction sigs) (auto simp: overlay_def)
  then show ?thesis
    by (simp add: handleMoveSignature_def split_beta)
qed

theorem round_trip_witness:
  "0 < scrollWidth example_container \<and> 0 < scrollHeight example_container
   \<and> overlay (800, 600) 1
       (snd (handleMoveSignature (Some example_container) False ''s1'' 200 150
               [example_field, second_field]))
     = [(''s1'', Fin 200, Fin 150)]"
proof -
  have h: "0 < scrollWidth example_container" "0 < scrollHeight example_container"
    by (simp_all add: example_container_def)
  show ?thesis
    using h round_trip[OF h, of 1 "''s1''" 200 150 "[example_field, second_field]"]
    by (simp add: example_container_def example_field_def second_field_def)
qed

text \<open>
  With rounding: if the quotient and the product are each computed with a relative
  error of at most \<open>2\<^sup>-\<^sup>5\<^sup>3\<close>, the displayed pixel is within a relative error of
  \<open>10\<^sup>-\<^sup>6\<close> of the captured one.
\<close>

lemma rounding_tolerance:
  fixes p w f r u :: real
  assumes "0 < w" and "0 \<le> u" and "u \<le> 1 / 2 ^ 53"
    and "\<bar>f - p / w\<bar> \<le> u * \<bar>p / w\<bar>"
    and "\<bar>r - f * w\<bar> \<le> u * \<bar>f * w\<bar>"
  shows "\<bar>r - p\<bar> \<le> \<bar>p\<bar> / 10 ^ 6"
proof -
  have fw: "\<bar>f * w - p\<bar> \<le> u * \<bar>p\<bar>"
  proof -
    have "f * w - p = (f - p / w) * w"
      using assms(1) by (simp add: field_simps)
    then have "\<bar>f * w - p\<bar> = \<bar>f - p / w\<bar> * w"
      using assms(1) by (simp add: abs_mult)
    also have "\<dots> \<le> (u * \<bar>p / w\<bar>) * w"
      using assms(1,4) by (intro mult_right_mono) auto
    also have "\<dots> = u * \<bar>p\<bar>"
      using assms(1) by simp
    finally show ?thesis .
  qed
  have "\<bar>f * w\<bar> \<le> \<bar>p\<bar> + u * \<bar>p\<bar>"
    using fw by linarith
  then have "u * \<bar>f * w\<bar> \<le> u * (\<bar>p\<bar> + u * \<bar>p\<bar>)"
    using assms(2) by (rule mult_left_mono)
  with assms(5) have "\<bar>r - f * w\<bar> \<le> u * (\<bar>p\<bar> + u * \<bar>p\<bar>)"
    by linarith
  with fw have "\<bar>r - p\<bar> \<le> u * (\<bar>p\<bar> + u * \<bar>p\<bar>) + u * \<bar>p\<bar>"
    by linarith
  also have "\<dots> = (2 * u + u * u) * \<bar>p\<bar>"
    by (simp add: algebra_simps)
  also have "\<dots> \<le> (1 / 10 ^ 6) * \<bar>p\<bar>"
  proof (rule mult_right_mono)
    have "u * u \<le> u * 1"
      using assms(2,3) by (intro mult_left_mono) auto
    then have "2 * u + u * u \<le> 3 * u"
      by simp
    also have "\<dots> \<le> 3 * (1 / 2 ^ 53)"
      using assms(3) by simp
    also have "\<dots> \<le> 1 / 10 ^ 6"
      by simp
    finally show "2 * u + u * u \<le> 1 / 10 ^ 6" .
  qed simp
  finally show ?thesis by simp
qed

text \<open>
  C4: \<open>handleMoveSignature\<close> has no check of the content size. With a content height of
  zero the Y fraction is \<open>Infinity\<close>, with an unmeasured container and a field dragged to
  the origin both fractions are \<open>NaN\<close>; the values are handed to the store and, when the
  store reports no error, written to the rows.
\<close>

theorem capture_zero_size_emits_infinity:
  "handleMoveSignature (Some zero_height_container) False ''s1'' 10 10 [example_field]
     = (Some (Fin (1 / 80), PosInf),
        [example_field\<lparr>x_position := Fin (1 / 80), y_position := PosInf\<rparr>])
   \<and> handleMoveSignature (Some unmeasured_container) False ''s1'' 0 0 [example_field]
     = (Some (NaN, NaN), [example_field\<lparr>x_position := NaN, y_position := NaN\<rparr>])"
  by (simp add: handleMoveSignature_def normalized_def example_field_def
        zero_height_container_def unmeasured_container_def)

text \<open>
  C5, as stated, fails: a drag to 1000 pixels in a content 800 pixels wide is passed on
  unchanged and yields the fraction 1.25, outside the unit interval.
\<close>

theorem capture_beyond_content_exceeds_one:
  "handleMouseMove \<lparr>isDragging = True, dragOffset_x = 0, dragOffset_y = 0\<rparr> True (Some (0, 0)) 1000 10
     = Some (1000, 10)
   \<and> fst (normalized example_container 1000 10) = Fin 1.25
   \<and> \<not> in_unit_interval (fst (normalized example_container 1000 10))"
  by (simp add: handleMouseMove_def normalized_def example_container_def)

text \<open>
  C5 (amended): for a positive content size and non-negative scroll offsets, the
  fractions captured from a drag are finite and at least 0; a drag position below 0 is
  floored to 0 before the scroll offset is added; there is no upper clamp, and a
  fraction is at most 1 exactly when the floored position plus the scroll offset does
  not exceed the content size.
\<close>

theorem capture_floor:
  assumes "handleMouseMove st onMove (Some (rect_left, rect_top)) clientX clientY = Some (x, y)"
    and "0 < scrollWidth c" and "0 < scrollHeight c"
    and "0 \<le> scrollLeft c" and "0 \<le> scrollTop c"
  shows "\<exists>fx fy. normalized c x y = (Fin fx, Fin fy) \<and> 0 \<le> fx \<and> 0 \<le> fy
           \<and> (fx \<le> 1 \<longleftrightarrow> x + scrollLeft c \<le> scrollWidth c)
           \<and> (fy \<le> 1 \<longleftrightarrow> y + scrollTop c \<le> scrollHeight c)
           \<and> (clientX - rect_left - dragOffset_x st \<le> 0
                \<longrightarrow> x = 0 \<and> fx = scrollLeft c / scrollWidth c)
           \<and> (clientY - rect_top - dragOffset_y st \<le> 0
                \<longrightarrow> y = 0 \<and> fy = scrollTop c / scrollHeight c)"
proof -
  have x: "x = max 0 (clientX - rect_left - dragOffset_x st)"
    and y: "y = max 0 (clientY - rect_top - dragOffset_y st)"
    using assms(1) by (auto simp: handleMouseMove_def Let_def split: if_splits)
  have n: "normalized c x y
             = (Fin ((x + scrollLeft c) / scrollWidth c), Fin ((y + scrollTop c) / scrollHeight c))"
    using assms(2,3) by (simp add: normalized_def)
  have x0: "0 \<le> x" and y0: "0 \<le> y"
    using x y by simp_all
  have "0 \<le> (x + scrollLeft c) / scrollWidth c"
    using x0 assms(2,4) by simp
  moreover have "0 \<le> (y + scrollTop c) / scrollHeight c"
    using y0 assms(3,5) by simp
  moreover have "(x + scrollLeft c) / scrollWidth c \<le> 1 \<longleftrightarrow> x + scrollLeft c \<le> scrollWidth c"
    using assms(2) by simp
  moreover have "(y + scrollTop c) / scrollHeight c \<le> 1 \<longleftrightarrow> y + scrollTop c \<le> scrollHeight c"
    using assms(3) by simp
  moreover have "clientX - rect_left - dragOffset_x st \<le> 0
      \<longrightarrow> x = 0 \<and> (x + scrollLeft c) / scrollWidth c = scrollLeft c / scrollWidth c"
    using x by auto
  moreover have "clientY - rect_top - dragOffset_y st \<le> 0
      \<longrightarrow> y = 0 \<and> (y + scrollTop c) / scrollHeight c = scrollTop c / scrollHeight c"
    using y by auto
  ultimately show ?thesis
    using n by blast
qed

theorem capture_floor_witness:
  "handleMouseMove example_drag True (Some (100, 50)) 90 650 = Some (0, 595)
   \<and> normalized example_container 0 595 = (Fin 0, Fin (595 / 600))"
proof -
  have h1: "handleMouseMove example_drag True (Some (100, 50)) 90 650 = Some (0, 595)"
    by (simp add: handleMouseMove_def example_drag_def)
  have h2: "0 < scrollWidth example_container" and h3: "0 < scrollHeight example_container"
    and h4: "0 \<le> scrollLeft example_container" and h5: "0 \<le> scrollTop example_container"
    by (simp_all add: example_container_def)
  show ?thesis
    using h1 capture_floor[OF h1 h2 h3 h4 h5]
    by (simp add: normalized_def example_container_def)
qed


section \<open>Properties of the status\<close>

lemma list_all2_map_same: "list_all2 P xs (map f xs) \<longleftrightarrow> (\<forall>x \<in> set xs. P x (f x))"
  by (induction xs) auto

lemma status_step_refl: "status_step a a"
  by (cases a) auto

lemma status_step_Rejected: "status_step a Rejected"
  by (cases a) auto

text \<open>An update of rows that keeps the ids and makes only admitted changes of status.\<close>

lemma map_status_step:
  fixes rows :: "signature_row list"
  assumes "\<And>r. r \<in> set rows \<Longrightarrow> sig_id (f r) = sig_id r \<and> status_step (status r) (status (f r))"
  shows "map sig_id (map f rows) = map sig_id rows
       \<and> list_all2 (\<lambda>r r'. status_step (status r) (status r')) rows (map f rows)"
  using assms by (simp add: list_all2_map_same)

lemma sign_update_step:
  fixes rows :: "signature_row list"
  assumes "t \<in> set rows" and "sig_id t = sid" and "status t = Pending"
    and "distinct (map sig_id rows)" and "r \<in> set rows"
  shows "sig_id (if sig_id r = sid
                 then r\<lparr>signature_data := Some signatureData, status := Signed, signed_at := Some now\<rparr>
                 else r) = sig_id r
       \<and> status_step (status r)
           (status (if sig_id r = sid
                    then r\<lparr>signature_data := Some signatureData, status := Signed,
                           signed_at := Some now\<rparr>
                    else r))"
proof (cases "sig_id r = sid")
  case True
  then have "r = t"
    using assms(1,2,4,5) by (auto simp: distinct_map inj_on_def)
  with assms(3) True show ?thesis by simp
next
  case False
  then show ?thesis by (simp add: status_step_refl)
qed

lemma sign_update_steps:
  fixes rows :: "signature_row list"
  assumes "t \<in> set rows" and "sig_id t = sid" and "status t = Pending"
    and "distinct (map sig_id rows)"
  shows "map sig_id (handleSignatureComplete (Some sid) (Some ds) False signatureData now rows)
           = map sig_id rows
       \<and> list_all2 (\<lambda>r r'. status_step (status r) (status r')) rows
           (handleSignatureComplete (Some sid) (Some ds) False signatureData now rows)"
proof (cases "sid = []")
  case True
  then have "handleSignatureComplete (Some sid) (Some ds) False signatureData now rows = rows"
    by (simp add: handleSignatureComplete_def)
  then show ?thesis
    by (simp add: list_all2_same status_step_refl)
next
  case False
  then have "handleSignatureComplete (Some sid) (Some ds) False signatureData now rows
      = map (\<lambda>sig. if sig_id sig = sid
                    then sig\<lparr>signature_data := Some signatureData, status := Signed,
                             signed_at := Some now\<rparr>
                    else sig) rows"
    by (simp add: handleSignatureComplete_def)
  then show ?thesis
    using map_status_step[of rows, OF sign_update_step[OF assms]] by simp
qed

text \<open>
  C3, as stated, fails: the signer of a signed and a pending field is offered "Reject
  Document", and rejecting sets the signed field to rejected as well.
\<close>

theorem signed_field_set_to_rejected:
  "status example_field = Signed
   \<and> reject_button_shown (my_signatures example_share [example_field, pending_field])
   \<and> perform example_share Reject [example_field, pending_field]
       = Some [example_field\<lparr>status := Rejected,
                             rejection_reason := Some ''Document rejected by signer''\<rparr>,
               pending_field\<lparr>status := Rejected,
                             rejection_reason := Some ''Document rejected by signer''\<rparr>]"
  by (simp add: example_share_def example_field_def pending_field_def reject_button_shown_def
        my_signatures_def allSigned_def hasRejected_def handleRejectDocument_def)

text \<open>
  C3 (amended): the status is one of pending, signed and rejected; with unique row ids,
  every operation the pages offer (signing a field, rejecting the document, moving a
  field) keeps the rows and their ids and changes a status only from pending to signed,
  from pending to rejected or from signed to rejected: a rejected field stays rejected
  and a signed field never becomes pending again, but rejecting the document sets all
  fields of the signer to rejected, the signed ones included.
\<close>

theorem status_transitions:
  assumes "perform ds a rows = Some rows'" and "distinct (map sig_id rows)"
  shows "map sig_id rows' = map sig_id rows
       \<and> list_all2 (\<lambda>r r'. status_step (status r) (status r')) rows rows'"
proof (cases a)
  case (Sign sid signatureData now)
  from assms(1) Sign
  have gate: "list_ex (\<lambda>sig. sig_id sig = sid \<and> sign_button_shown (my_signatures ds rows) sig)
                (my_signatures ds rows)"
    and rows': "rows' = handleSignatureComplete (Some sid) (Some ds) False signatureData now rows"
    by (simp_all split: if_splits)
  from gate obtain t where t: "t \<in> set rows" "sig_id t = sid" "status t = Pending"
    by (auto simp: list_ex_iff my_signatures_def sign_button_shown_def)
  show ?thesis
    unfolding rows' by (rule sign_update_steps[OF t assms(2)])
next
  case Reject
  from assms(1) Reject
  have rows': "rows' = map (\<lambda>sig. if document_id sig = share_document_id ds
                                     \<and> signer_email sig = share_signer_email ds
                        then sig\<lparr>status := Rejected,
                                 rejection_reason := Some ''Document rejected by signer''\<rparr>
                        else sig) rows"
    by (simp add: handleRejectDocument_def split: if_splits)
  show ?thesis
    unfolding rows' by (rule map_status_step) (simp add: status_step_refl status_step_Rejected)
next
  case (TokenSign sid signatureData now)
  from assms(1) TokenSign
  have gate: "list_ex (\<lambda>sig. sig_id sig = sid
                        \<and> handleSignatureFieldClick (share_signer_email ds) sig \<noteq> None)
                (filter (\<lambda>sig. document_id sig = share_document_id ds) rows)"
    and rows': "rows' = handleSignatureComplete (Some sid) (Some ds) False signatureData now rows"
    by (simp_all split: if_splits)
  from gate obtain t where t: "t \<in> set rows" "sig_id t = sid" "status t = Pending"
    by (auto simp: list_ex_iff handleSignatureFieldClick_def split: if_splits)
  show ?thesis
    unfolding rows' by (rule sign_update_steps[OF t assms(2)])
next
  case (Move c x y sid)
  from assms(1) Move
  have "rows' = snd (handleMoveSignature (Some c) False sid x y rows)"
    by (simp split: if_splits)
  then have rows': "rows' = map (\<lambda>sig. if sig_id sig = sid
                        then sig\<lparr>x_position := fst (normalized c x y),
                                 y_position := snd (normalized c x y)\<rparr>
                        else sig) rows"
    by (simp add: handleMoveSignature_def split_beta)
  show ?thesis
    unfolding rows' by (rule map_status_step) (simp add: status_step_refl)
qed

theorem status_transitions_witness:
  "perform example_share (Sign ''s2'' ''data:png'' ''t2'') [example_field, pending_field]
     = Some [example_field,
             pending_field\<lparr>signature_data := Some ''data:png'', status := Signed,
                           signed_at := Some ''t2''\<rparr>]
   \<and> distinct (map sig_id [example_field, pending_field])
   \<and> list_all2 (\<lambda>r r'. status_step (status r) (status r')) [example_field, pending_field]
       [example_field,
        pending_field\<lparr>signature_data := Some ''data:png'', status := Signed,
                      signed_at := Some ''t2''\<rparr>]"
proof -
  have h1: "perform example_share (Sign ''s2'' ''data:png'' ''t2'') [example_field, pending_field]
     = Some [example_field,
             pending_field\<lparr>signature_data := Some ''data:png'', status := Signed,
                           signed_at := Some ''t2''\<rparr>]"
    by (simp add: example_share_def example_field_def pending_field_def sign_button_shown_def
          my_signatures_def allSigned_def hasRejected_def handleSignatureComplete_def)
  have h2: "distinct (map sig_id [example_field, pending_field])"
    by (simp add: example_field_def pending_field_def)
  show ?thesis
    using h1 h2 status_transitions[OF h1 h2] by simp
qed


section \<open>Properties of the capture\<close>

lemma handleComplete_Some:
  assumes "handleComplete toDataURL renderText st = Some url"
  shows "\<not> spec_empty_input st"
  using assms
  by (auto simp: handleComplete_def spec_empty_input_def Let_def
           split: signature_mode.splits option.splits if_splits)

text \<open>
  \<open>handleComplete\<close> itself does not look at the signer's name and email: that part of
  the gate is the disabled state of the button alone.
\<close>

lemma handleComplete_ignores_signer_info:
  "handleComplete toDataURL renderText (st\<lparr>signerName := n, signerEmail := m\<rparr>)
     = handleComplete toDataURL renderText st"
  by (simp add: handleComplete_def Let_def split: signature_mode.splits)

text \<open>
  C9, as stated, fails: on an empty freehand canvas with valid signer info the
  specification has \<open>complete()\<close> fail with \<open>EmptyInput\<close>, and with an empty signer email
  with \<open>MissingSignerInfo\<close>, but the click has no effect at all and reports no error.
\<close>

theorem empty_canvas_signals_no_error:
  "spec_complete_error (example_capture\<lparr>canvas := Some 0, canvas_at_render := Some 0\<rparr>) = Some EmptyInput
   \<and> click_outcome example_toDataURL example_renderText
        (example_capture\<lparr>canvas := Some 0, canvas_at_render := Some 0\<rparr>) = NoEffect
   \<and> click_outcome example_toDataURL example_renderText
        (example_capture\<lparr>canvas := Some 0, canvas_at_render := Some 0\<rparr>) \<noteq> Failed EmptyInput
   \<and> spec_complete_error (example_capture\<lparr>signerEmail := []\<rparr>) = Some MissingSignerInfo
   \<and> click_outcome example_toDataURL example_renderText (example_capture\<lparr>signerEmail := []\<rparr>)
        \<noteq> Failed MissingSignerInfo"
  by (simp add: spec_complete_error_def spec_empty_input_def example_capture_def click_outcome_def
        click_complete_def complete_disabled_def hasSignature_def trim_def)

text \<open>
  C9 (amended): completion is gated on its inputs, silently. A click on "Complete
  Signature" on an empty freehand canvas (zero strokes), in typed mode with an empty
  trimmed string, or with a signer name or signer email that is empty (also after
  trimming) has no effect: no image is produced, \<open>onComplete\<close> is not called and no
  error is reported. An image is produced only when none of these conditions applies,
  and it is the one \<open>handleComplete\<close> makes.
\<close>

theorem capture_gating_silent:
  "(spec_empty_input st \<longrightarrow> click_outcome toDataURL renderText st = NoEffect)
 \<and> (trim (signerName st) = [] \<or> trim (signerEmail st) = []
      \<longrightarrow> click_outcome toDataURL renderText st = NoEffect)
 \<and> (click_outcome toDataURL renderText st = Produced url
      \<longrightarrow> \<not> spec_empty_input st \<and> trim (signerName st) \<noteq> [] \<and> trim (signerEmail st) \<noteq> []
          \<and> handleComplete toDataURL renderText st = Some url)
 \<and> click_outcome toDataURL renderText st \<noteq> Failed e"
proof -
  have prod: "\<not> spec_empty_input st \<and> trim (signerName st) \<noteq> [] \<and> trim (signerEmail st) \<noteq> []
          \<and> handleComplete toDataURL renderText st = Some u"
    if "click_complete toDataURL renderText st = Some u" for u
  proof -
    from that have en: "\<not> complete_disabled st"
      and hc: "handleComplete toDataURL renderText st = Some u"
      by (auto simp: click_complete_def split: if_splits)
    from hc have "\<not> spec_empty_input st"
      by (rule handleComplete_Some)
    moreover from en have "trim (signerName st) \<noteq> []" "trim (signerEmail st) \<noteq> []"
      by (auto simp: complete_disabled_def)
    ultimately show ?thesis
      using hc by simp
  qed
  show ?thesis
  proof (cases "click_complete toDataURL renderText st")
    case None
    then show ?thesis by (simp add: click_outcome_def)
  next
    case (Some u)
    with prod[of u] show ?thesis by (simp add: click_outcome_def)
  qed
qed

text \<open>
  An empty canvas behind a button still enabled from the last rendering, a signer
  email of blanks, and a complete input.
\<close>

theorem capture_gating_silent_witness:
  "spec_empty_input (example_capture\<lparr>canvas := Some 0\<rparr>)
   \<and> click_outcome example_toDataURL example_renderText (example_capture\<lparr>canvas := Some 0\<rparr>) = NoEffect
   \<and> trim (signerEmail (example_capture\<lparr>signerEmail := ''  ''\<rparr>)) = []
   \<and> click_outcome example_toDataURL example_renderText (example_capture\<lparr>signerEmail := ''  ''\<rparr>)
        = NoEffect
   \<and> click_outcome example_toDataURL example_renderText example_capture
        = Produced ''data:image/png;base64,AAA''
   \<and> \<not> spec_empty_input example_capture"
proof -
  have h1: "spec_empty_input (example_capture\<lparr>canvas := Some 0\<rparr>)"
    by (simp add: spec_empty_input_def example_capture_def)
  have h2: "trim (signerEmail (example_capture\<lparr>signerEmail := ''  ''\<rparr>)) = []"
    by (simp add: trim_def js_whitespace_def)
  have h3: "click_outcome example_toDataURL example_renderText example_capture
              = Produced ''data:image/png;base64,AAA''"
    by (simp add: click_outcome_def click_complete_def complete_disabled_def hasSignature_def
          handleComplete_def example_capture_def example_toDataURL_def trim_def js_whitespace_def
          numeral_3_eq_3)
  have g1: "click_outcome example_toDataURL example_renderText (example_capture\<lparr>canvas := Some 0\<rparr>)
              = NoEffect"
    by (rule capture_gating_silent[THEN conjunct1, THEN mp, OF h1])
  have g2: "click_outcome example_toDataURL example_renderText
              (example_capture\<lparr>signerEmail := ''  ''\<rparr>) = NoEffect"
    by (rule capture_gating_silent[THEN conjunct2, THEN conjunct1, THEN mp, OF disjI2, OF h2])
  have g3: "\<not> spec_empty_input example_capture"
    by (rule capture_gating_silent[THEN conjunct2, THEN conjunct2, THEN conjunct1, THEN mp,
          OF h3, THEN conjunct1])
  show ?thesis
    by (intro conjI) (rule h1 g1 h2 g2 h3 g3)+
qed


end
